theory Spec2Isabelle
  imports Complex_Main "HOL-Library.Word" "HOL-Library.Sublist"
begin

section \<open>JavaScript values\<close>

text \<open>
  The converter receives values of TypeScript type \<open>unknown\<close>: any JavaScript value.
  Numbers are IEEE doubles; the converter only ever asks for their \<open>typeof\<close>, so a
  finite double is kept as the rational it denotes, next to the three non-finite ones.
\<close>

datatype jsnumber = Finite rat | NaN | PosInfinity | NegInfinity

text \<open>
  Functions are compared by identity (\<open>value.constructor !== Object\<close>); the global
  constructors that matter are named, every other callable carries a label.
\<close>

datatype callable = ObjectConstructor | DateConstructor | RegExpConstructor | OtherFunction string

text \<open>
  An object is given by the \<open>constructor\<close> it inherits through its prototype chain
  (\<open>None\<close> for a null prototype, as made by \<open>Object.create(null)\<close>) and by its own
  enumerable string-keyed properties in insertion order. \<open>{}\<close> and the result of
  \<open>JSON.parse\<close> inherit \<open>Object\<close>, \<open>new Date()\<close> inherits \<open>Date\<close>, \<open>/re/\<close> inherits
  \<open>RegExp\<close>.
\<close>

datatype jsvalue =
    JNull
  | JUndefined
  | JBoolean bool
  | JNumber jsnumber
  | JString string
  | JBigInt int
  | JSymbol string
  | JFunction callable
  | JArray (items: "jsvalue list")
  | JObject (inherited: "callable option") (properties: "(string \<times> jsvalue) list")

fun typeof :: "jsvalue \<Rightarrow> string" where
  "typeof JNull = ''object''"
| "typeof JUndefined = ''undefined''"
| "typeof (JBoolean b) = ''boolean''"
| "typeof (JNumber n) = ''number''"
| "typeof (JString s) = ''string''"
| "typeof (JBigInt i) = ''bigint''"
| "typeof (JSymbol d) = ''symbol''"
| "typeof (JFunction f) = ''function''"
| "typeof (JArray xs) = ''object''"
| "typeof (JObject c ps) = ''object''"

fun isArray :: "jsvalue \<Rightarrow> bool" where
  "isArray (JArray xs) = True"
| "isArray v = False"

text \<open>
  Property read \<open>value.constructor\<close> on an object: an own property named
  \<open>constructor\<close> shadows the inherited one; with neither, the read gives
  \<open>undefined\<close>.
\<close>

definition get_constructor :: "callable option \<Rightarrow> (string \<times> jsvalue) list \<Rightarrow> jsvalue" where
  "get_constructor c ps =
     (case map_of ps ''constructor'' of
        Some v \<Rightarrow> v
      | None \<Rightarrow> (case c of None \<Rightarrow> JUndefined | Some f \<Rightarrow> JFunction f))"

section \<open>The shape validator\<close>

text \<open>
  \<open>isValidJsonObject\<close> of \<open>jsonAutomergeConverter.ts\<close>, one equation for each
  branch the source takes. \<open>Array.prototype.every\<close> is \<open>list_all\<close>, and
  \<open>Object.values(value)\<close> lists the own enumerable property values in order:
  \<open>map snd ps\<close>.
\<close>

fun isValidJsonObject :: "jsvalue \<Rightarrow> bool" where
  "isValidJsonObject JNull = False"
| "isValidJsonObject JUndefined = False"
| "isValidJsonObject (JBoolean b) = True"
| "isValidJsonObject (JNumber n) = True"
| "isValidJsonObject (JString s) = True"
| "isValidJsonObject (JArray xs) = list_all isValidJsonObject xs"
| "isValidJsonObject (JObject c ps) =
     (if get_constructor c ps \<noteq> JFunction ObjectConstructor \<and> get_constructor c ps \<noteq> JUndefined
      then False
      else list_all isValidJsonObject (map snd ps))"
| "isValidJsonObject (JBigInt i) = False"
| "isValidJsonObject (JSymbol d) = False"
| "isValidJsonObject (JFunction f) = False"

section \<open>The validator at run time\<close>

text \<open>
  At run time arrays and objects are references, a property is a data property or an
  accessor, an object may be a Proxy, and each call of the validator takes a frame of
  the call stack. The run-time level keeps arrays and objects as cells of a graph: a
  property can hold the object it belongs to, as in the test's
  \<open>circular.self = circular\<close>. Reading an accessor runs its getter, and every
  operation on a Proxy runs a trap: user code, which does what it does to the world (its
  effects) and then returns a value or throws. Primitives are held directly.
\<close>

datatype js_error = RangeError | UserError

datatype effect = Effect string

type_synonym 'a outcome = "(js_error + 'a) \<times> effect list"

text \<open>Sequencing: the second step runs if the first returned, and the effects add up.\<close>

fun then_do :: "'a outcome \<Rightarrow> ('a \<Rightarrow> 'b outcome) \<Rightarrow> 'b outcome" where
  "then_do (Inl e, es) f = (Inl e, es)"
| "then_do (Inr x, es) f = (case f x of (r, es') \<Rightarrow> (r, es @ es'))"

datatype primitive =
    PNull | PUndefined | PBoolean bool | PNumber jsnumber | PString string
  | PBigInt int | PSymbol string | PFunction callable

fun plain :: "primitive \<Rightarrow> jsvalue" where
  "plain PNull = JNull"
| "plain PUndefined = JUndefined"
| "plain (PBoolean b) = JBoolean b"
| "plain (PNumber n) = JNumber n"
| "plain (PString s) = JString s"
| "plain (PBigInt i) = JBigInt i"
| "plain (PSymbol d) = JSymbol d"
| "plain (PFunction f) = JFunction f"

datatype gvalue = Prim primitive | At nat

text \<open>
  An accessor is given by what its getter does and returns. A Proxy over an array is
  given by what \<open>every\<close> gets to see of it; a Proxy over an object by what reading
  \<open>constructor\<close> gives and what \<open>Object.values\<close> gives.
\<close>

datatype slot = Data gvalue | Accessor "gvalue outcome"

datatype gcell =
    ArrayAt "gvalue list"
  | ObjectAt "callable option" "(string \<times> slot) list"
  | ProxyArrayAt "gvalue list outcome"
  | ProxyObjectAt "gvalue outcome" "gvalue list outcome"

type_synonym graph = "nat \<Rightarrow> gcell"

fun read :: "slot \<Rightarrow> gvalue outcome" where
  "read (Data x) = (Inr x, [])"
| "read (Accessor r) = r"

text \<open>\<open>Object.values(value)\<close> reads every own property, in order, before the loop starts.\<close>

fun read_all :: "slot list \<Rightarrow> gvalue list outcome" where
  "read_all [] = (Inr [], [])"
| "read_all (s # ss) = then_do (read s) (\<lambda>x. then_do (read_all ss) (\<lambda>xs. (Inr (x # xs), [])))"

definition graph_get_constructor :: "callable option \<Rightarrow> (string \<times> slot) list \<Rightarrow> gvalue outcome" where
  "graph_get_constructor c ps =
     (case map_of ps ''constructor'' of
        Some s \<Rightarrow> read s
      | None \<Rightarrow> (case c of None \<Rightarrow> (Inr (Prim PUndefined), []) | Some f \<Rightarrow> (Inr (Prim (PFunction f)), [])))"

text \<open>
  The source's test \<open>value.constructor !== Object && value.constructor !== undefined\<close>:
  the property is read once, and once more when the first comparison holds.
\<close>

definition not_plain :: "gvalue outcome \<Rightarrow> bool outcome" where
  "not_plain k =
     then_do k (\<lambda>k1.
       if k1 \<noteq> Prim (PFunction ObjectConstructor)
       then then_do k (\<lambda>k2. (Inr (k2 \<noteq> Prim PUndefined), []))
       else (Inr False, []))"

text \<open>
  \<open>Array.prototype.every\<close> with a callback that may throw: elements are tested from the
  left, the first false ends the loop, and what the callback throws goes through.
\<close>

fun every_call :: "('a \<Rightarrow> bool outcome) \<Rightarrow> 'a list \<Rightarrow> bool outcome" where
  "every_call f [] = (Inr True, [])"
| "every_call f (x # xs) = then_do (f x) (\<lambda>b. if b then every_call f xs else (Inr False, []))"

text \<open>
  \<open>isValidJsonObject_run n g x\<close>: the validator called on \<open>x\<close> in graph \<open>g\<close> with
  room for \<open>n\<close> more nested calls of itself. With no frame left the call throws
  \<open>RangeError\<close> (maximum call stack size exceeded); the limit is the runtime's. The
  tests on the value are the source's, in its order.
\<close>

fun isValidJsonObject_run :: "nat \<Rightarrow> graph \<Rightarrow> gvalue \<Rightarrow> bool outcome" where
  "isValidJsonObject_run 0 g x = (Inl RangeError, [])"
| "isValidJsonObject_run (Suc n) g (Prim p) = (Inr (isValidJsonObject (plain p)), [])"
| "isValidJsonObject_run (Suc n) g (At a) =
     (case g a of
        ArrayAt xs \<Rightarrow> every_call (isValidJsonObject_run n g) xs
      | ProxyArrayAt r \<Rightarrow> then_do r (every_call (isValidJsonObject_run n g))
      | ObjectAt c ps \<Rightarrow>
          then_do (not_plain (graph_get_constructor c ps)) (\<lambda>exotic.
            if exotic then (Inr False, [])
            else then_do (read_all (map snd ps)) (every_call (isValidJsonObject_run n g)))
      | ProxyObjectAt k r \<Rightarrow>
          then_do (not_plain k) (\<lambda>exotic.
            if exotic then (Inr False, [])
            else then_do r (every_call (isValidJsonObject_run n g))))"




definition circular_graph :: graph where
  "circular_graph =
     (\<lambda>a. ObjectAt (Some ObjectConstructor)
        [(''name'', Data (Prim (PString ''test''))), (''self'', Data (At 0))])"

definition getter_graph :: graph where
  "getter_graph =
     (\<lambda>a. ObjectAt (Some ObjectConstructor) [(''lazy'', Accessor (Inl UserError, [Effect ''log'']))])"



section \<open>What a value contains\<close>

text \<open>
  \<open>parts v\<close> lists \<open>v\<close> and every value nested in it at any depth, through array
  elements and property values. The values the validator is meant to keep out: objects
  that inherit another constructor than \<open>Object\<close> (dates, patterns, class instances),
  callables and symbols. \<open>nest i\<close> is the test's deep object, \<open>i\<close> levels around
  \<open>{ value: "deep" }\<close>.
\<close>

fun parts :: "jsvalue \<Rightarrow> jsvalue list" where
  "parts (JArray xs) = JArray xs # concat (map parts xs)"
| "parts (JObject c ps) = JObject c ps # concat (map parts (map snd ps))"
| "parts v = [v]"

fun exotic :: "jsvalue \<Rightarrow> bool" where
  "exotic (JObject c ps) = (c \<noteq> Some ObjectConstructor \<and> c \<noteq> None)"
| "exotic (JFunction f) = True"
| "exotic (JSymbol d) = True"
| "exotic v = False"

fun nest :: "nat \<Rightarrow> jsvalue" where
  "nest 0 = JObject (Some ObjectConstructor) [(''value'', JString ''deep'')]"
| "nest (Suc i) =
     JObject (Some ObjectConstructor) [(''level'', JNumber (Finite (of_nat i))), (''child'', nest i)]"

section \<open>The codec\<close>

type_synonym bytes = "8 word list"

record ConversionOptions =
  actor :: "string option"
  validateJson :: "bool option"

text \<open>The default \<open>options = {}\<close>: both fields absent.\<close>

definition no_options :: ConversionOptions where
  "no_options = \<lparr>actor = None, validateJson = None\<rparr>"

text \<open>
  The CRDT engine (\<open>@automerge/automerge\<close>) is an external library; the converter
  is written against three of its operations, taken here as a parameter. An engine call
  is an effect: it may consult and change the world outside the converter (the source of
  fresh actor ids, the clock, the engine's own bookkeeping), so each operation takes the
  world and returns the next one; a call that throws returns \<open>Inl\<close>.
  \<open>A_view\<close> is the plain value a document object reads as (a document is itself
  the object that \<open>automergeToJson\<close> hands back).
\<close>

record ('d, 'e, 'w) engine =
  A_from :: "jsvalue \<Rightarrow> string option \<Rightarrow> 'w \<Rightarrow> ('e + 'd) \<times> 'w"
  A_save :: "'d \<Rightarrow> 'w \<Rightarrow> bytes \<times> 'w"
  A_load :: "bytes \<Rightarrow> string option \<Rightarrow> 'w \<Rightarrow> ('e + 'd) \<times> 'w"
  A_view :: "'d \<Rightarrow> jsvalue"

text \<open>
  What a call of the converter can throw: its own \<open>new Error(message)\<close>, or whatever
  the engine threw, passed on unchanged.
\<close>

datatype 'e failure = Error string | Thrown 'e

definition jsonToAutomerge ::
  "('d, 'e, 'w) engine \<Rightarrow> jsvalue \<Rightarrow> ConversionOptions \<Rightarrow> 'w \<Rightarrow> ('e failure + bytes) \<times> 'w" where
  "jsonToAutomerge E json options w =
     (if validateJson options = Some True \<and> \<not> isValidJsonObject json
      then (Inl (Error ''Invalid JSON object: must be a plain object or array''), w)
      else (case A_from E json (actor options) w of
              (Inl e, w') \<Rightarrow> (Inl (Thrown e), w')
            | (Inr doc, w') \<Rightarrow> (case A_save E doc w' of (binary, w'') \<Rightarrow> (Inr binary, w''))))"

definition automergeToJson ::
  "('d, 'e, 'w) engine \<Rightarrow> bytes \<Rightarrow> ConversionOptions \<Rightarrow> 'w \<Rightarrow> ('e failure + 'd) \<times> 'w" where
  "automergeToJson E binary options w =
     (case A_load E binary (actor options) w of
        (Inl e, w') \<Rightarrow> (Inl (Thrown e), w')
      | (Inr doc, w') \<Rightarrow> (Inr doc, w'))"

definition jsonToRepoCompatible ::
  "('d, 'e, 'w) engine \<Rightarrow> jsvalue \<Rightarrow> ConversionOptions \<Rightarrow> 'w \<Rightarrow> ('e failure + bytes) \<times> 'w" where
  "jsonToRepoCompatible E json options w = jsonToAutomerge E json options w"



text \<open>
  Modelled from the spec: the binary probe \<open>isValidBinary\<close> (the tests import it as
  \<open>validateAutomergeBinary\<close>) is not among the sources. The spec, section 4.3:
  it attempts \<open>decode(bytes, {})\<close> and returns true iff that completes without failure,
  false otherwise, including for a zero-length input; it never raises.
\<close>

definition isValidBinary :: "('d, 'e, 'w) engine \<Rightarrow> bytes \<Rightarrow> 'w \<Rightarrow> bool \<times> 'w" where
  "isValidBinary E binary w =
     (case automergeToJson E binary no_options w of
        (Inl e, w') \<Rightarrow> (False, w')
      | (Inr doc, w') \<Rightarrow> (binary \<noteq> [], w'))"

section \<open>Structural equality and the engine's contract\<close>

text \<open>
  The equality the round trip is measured by: deep, position by position on arrays, key
  by key on objects whatever the order of their properties.
\<close>

fun js_equal :: "jsvalue \<Rightarrow> jsvalue \<Rightarrow> bool" where
  "js_equal (JArray xs) (JArray ys) = list_all2 js_equal xs ys"
| "js_equal (JObject c ps) (JObject c' qs) =
     (c = c' \<and> set (map fst ps) = set (map fst qs) \<and>
      (\<forall>p \<in> set ps. \<forall>q \<in> set qs. fst p = fst q \<longrightarrow> js_equal (snd p) (snd q)))"
| "js_equal a b = (a = b)"

text \<open>
  The engine's contract (spec, section 6): serialize and deserialize are inverses for any
  document the engine itself produced. Loading what was saved from a document the engine
  made gives a document that reads the same, for the actor it was made with and whatever
  has happened in the world in between.
\<close>

definition load_inverts_save :: "('d, 'e, 'w) engine \<Rightarrow> bool" where
  "load_inverts_save E \<longleftrightarrow>
     (\<forall>v a w d w' ws wl. A_from E v a w = (Inr d, w') \<longrightarrow>
        (\<exists>d' wl'. A_load E (fst (A_save E d ws)) a wl = (Inr d', wl') \<and> A_view E d' = A_view E d))"

section \<open>An engine to run the converter on\<close>

text \<open>
  A small engine with the behaviour the repository records of the real one, used where a
  statement is run on concrete input. Its documents are flat objects of scalars (null,
  booleans, strings without NUL, dates); a saved document is the four magic bytes followed
  by each key and each encoded value, NUL-terminated. An actor id must be an even number
  of hex digits. Zero bytes load as the empty document (the test fixtures note:
  "Empty binary actually returns valid empty document in Automerge"). The world counts
  the engine calls made.
\<close>

datatype engine_error = InvalidActor | Unrepresentable | NotADocument

definition byte_of_char :: "char \<Rightarrow> 8 word" where
  "byte_of_char c = word_of_nat (of_char c)"

definition char_of_byte :: "8 word \<Rightarrow> char" where
  "char_of_byte b = char_of (unat b)"

definition magic :: bytes where
  "magic = [0x85, 0x6f, 0x4a, 0x83]"

definition actor_ok :: "string option \<Rightarrow> bool" where
  "actor_ok a =
     (case a of
        None \<Rightarrow> True
      | Some x \<Rightarrow> even (length x) \<and> list_all (\<lambda>c. c \<in> set ''0123456789abcdef'') x)"

fun enc_scalar :: "jsvalue \<Rightarrow> bytes option" where
  "enc_scalar JNull = Some [0x6e]"
| "enc_scalar (JBoolean b) = Some [if b then 0x74 else 0x66]"
| "enc_scalar (JString s) =
     (if 0 \<in> set (map byte_of_char s) then None else Some (0x73 # map byte_of_char s))"
| "enc_scalar (JObject c ps) = (if c = Some DateConstructor \<and> ps = [] then Some [0x64] else None)"
| "enc_scalar v = None"

definition dec_scalar :: "bytes \<Rightarrow> jsvalue option" where
  "dec_scalar bs =
     (if bs = [0x6e] then Some JNull
      else if bs = [0x74] then Some (JBoolean True)
      else if bs = [0x66] then Some (JBoolean False)
      else if bs = [0x64] then Some (JObject (Some DateConstructor) [])
      else (case bs of
              [] \<Rightarrow> None
            | t # rest \<Rightarrow> if t = 0x73 then Some (JString (map char_of_byte rest)) else None))"

definition enc_entry :: "string \<times> jsvalue \<Rightarrow> (bytes \<times> bytes) option" where
  "enc_entry p =
     (if 0 \<in> set (map byte_of_char (fst p)) then None
      else map_option (\<lambda>b. (map byte_of_char (fst p), b)) (enc_scalar (snd p)))"

definition dec_entry :: "bytes \<times> bytes \<Rightarrow> (string \<times> jsvalue) option" where
  "dec_entry e = map_option (\<lambda>v. (map char_of_byte (fst e), v)) (dec_scalar (snd e))"

fun fields :: "bytes \<Rightarrow> bytes \<Rightarrow> bytes list option" where
  "fields acc [] = (if acc = [] then Some [] else None)"
| "fields acc (b # bs) =
     (if b = 0 then map_option ((#) (rev acc)) (fields [] bs) else fields (b # acc) bs)"

fun pairs :: "'a list \<Rightarrow> ('a \<times> 'a) list option" where
  "pairs [] = Some []"
| "pairs [x] = None"
| "pairs (k # v # rest) = map_option ((#) (k, v)) (pairs rest)"

type_synonym sample_doc = "(string \<times> jsvalue) list"

definition sample_from :: "jsvalue \<Rightarrow> string option \<Rightarrow> nat \<Rightarrow> (engine_error + sample_doc) \<times> nat" where
  "sample_from v a w =
     (if \<not> actor_ok a then (Inl InvalidActor, Suc w)
      else (case v of
              JObject c ps \<Rightarrow>
                if c = Some ObjectConstructor \<and> distinct (map fst ps) \<and> those (map enc_entry ps) \<noteq> None
                then (Inr ps, Suc w)
                else (Inl Unrepresentable, Suc w)
            | _ \<Rightarrow> (Inl Unrepresentable, Suc w)))"

definition sample_save :: "sample_doc \<Rightarrow> nat \<Rightarrow> bytes \<times> nat" where
  "sample_save d w =
     (magic @ concat (map (\<lambda>p. case enc_entry p of None \<Rightarrow> [] | Some (k, b) \<Rightarrow> k @ [0] @ b @ [0]) d),
      Suc w)"

definition sample_load :: "bytes \<Rightarrow> string option \<Rightarrow> nat \<Rightarrow> (engine_error + sample_doc) \<times> nat" where
  "sample_load bs a w =
     (if \<not> actor_ok a then (Inl InvalidActor, Suc w)
      else if bs = [] then (Inr [], Suc w)
      else if take 4 bs \<noteq> magic then (Inl NotADocument, Suc w)
      else (case Option.bind (fields [] (drop 4 bs)) pairs of
              None \<Rightarrow> (Inl NotADocument, Suc w)
            | Some es \<Rightarrow>
                (case those (map dec_entry es) of
                   None \<Rightarrow> (Inl NotADocument, Suc w)
                 | Some d \<Rightarrow> (Inr d, Suc w))))"

definition sample_engine :: "(sample_doc, engine_error, nat) engine" where
  "sample_engine =
     \<lparr>A_from = sample_from, A_save = sample_save, A_load = sample_load,
      A_view = JObject (Some ObjectConstructor)\<rparr>"


section \<open>A second engine, nearer the real one\<close>

text \<open>
  The second engine follows the real one on three points that the sample engine leaves
  out. \<open>from\<close> copies the own enumerable properties of the initial value into the root
  map of the document, as \<open>Object.assign\<close> does: an array gives its indices as keys, a
  string its characters, any other primitive nothing. Natural numbers up to the largest
  safe integer are values of a document. Every document is stamped at creation with the reading of the world's clock
  (the real engine stamps the time, and an actor of its own drawing when none is given),
  and saved with the stamp. What it does not cover it refuses.
\<close>

fun enc_num :: "nat \<Rightarrow> bytes" where
  "enc_num n = (if n = 0 then [] else word_of_nat (n mod 255 + 1) # enc_num (n div 255))"

declare enc_num.simps [simp del]

fun dec_num :: "bytes \<Rightarrow> nat" where
  "dec_num [] = 0"
| "dec_num (b # bs) = (unat b - 1) + 255 * dec_num bs"

definition digit :: "nat \<Rightarrow> char" where
  "digit n = ''0123456789'' ! n"

fun decimal :: "nat \<Rightarrow> string" where
  "decimal n = (if n < 10 then [digit n] else decimal (n div 10) @ [digit (n mod 10)])"

declare decimal.simps [simp del]

fun own_enumerable :: "jsvalue \<Rightarrow> (string \<times> jsvalue) list" where
  "own_enumerable (JObject c ps) = ps"
| "own_enumerable (JArray xs) = zip (map decimal [0..<length xs]) xs"
| "own_enumerable (JString s) = zip (map decimal [0..<length s]) (map (\<lambda>c. JString [c]) s)"
| "own_enumerable v = []"

definition enc_value :: "jsvalue \<Rightarrow> bytes option" where
  "enc_value v =
     (case v of
        JNumber (Finite q) \<Rightarrow>
          if 0 \<le> q \<and> q \<le> 9007199254740991 \<and> of_int \<lfloor>q\<rfloor> = q
          then Some (0x69 # enc_num (nat \<lfloor>q\<rfloor>))
          else None
      | JNumber _ \<Rightarrow> None
      | _ \<Rightarrow> enc_scalar v)"

definition dec_value :: "bytes \<Rightarrow> jsvalue option" where
  "dec_value bs =
     (case bs of
        [] \<Rightarrow> None
      | t # rest \<Rightarrow> if t = 0x69 then Some (JNumber (Finite (of_nat (dec_num rest)))) else dec_scalar bs)"

definition enc_field :: "string \<times> jsvalue \<Rightarrow> (bytes \<times> bytes) option" where
  "enc_field p =
     (if 0 \<in> set (map byte_of_char (fst p)) then None
      else map_option (\<lambda>b. (map byte_of_char (fst p), b)) (enc_value (snd p)))"

definition dec_field :: "bytes \<times> bytes \<Rightarrow> (string \<times> jsvalue) option" where
  "dec_field e = map_option (\<lambda>v. (map char_of_byte (fst e), v)) (dec_value (snd e))"

type_synonym stamped_doc = "bytes \<times> (string \<times> jsvalue) list"

definition stamping_from :: "jsvalue \<Rightarrow> string option \<Rightarrow> nat \<Rightarrow> (engine_error + stamped_doc) \<times> nat" where
  "stamping_from v a w =
     (if \<not> actor_ok a then (Inl InvalidActor, Suc w)
      else if distinct (map fst (own_enumerable v)) \<and> those (map enc_field (own_enumerable v)) \<noteq> None
      then (Inr (enc_num w, own_enumerable v), Suc w)
      else (Inl Unrepresentable, Suc w))"

definition stamping_save :: "stamped_doc \<Rightarrow> nat \<Rightarrow> bytes \<times> nat" where
  "stamping_save d w =
     (magic @ fst d @ [0]
        @ concat (map (\<lambda>p. case enc_field p of None \<Rightarrow> [] | Some (k, b) \<Rightarrow> k @ [0] @ b @ [0]) (snd d)),
      Suc w)"

definition stamping_load :: "bytes \<Rightarrow> string option \<Rightarrow> nat \<Rightarrow> (engine_error + stamped_doc) \<times> nat" where
  "stamping_load bs a w =
     (if \<not> actor_ok a then (Inl InvalidActor, Suc w)
      else if bs = [] then (Inr ([], []), Suc w)
      else if take 4 bs \<noteq> magic then (Inl NotADocument, Suc w)
      else (case fields [] (drop 4 bs) of
              Some (stamp # fs) \<Rightarrow>
                (case Option.bind (pairs fs) (\<lambda>es. those (map dec_field es)) of
                   None \<Rightarrow> (Inl NotADocument, Suc w)
                 | Some ps \<Rightarrow> (Inr (stamp, ps), Suc w))
            | _ \<Rightarrow> (Inl NotADocument, Suc w)))"

definition stamping_engine :: "(stamped_doc, engine_error, nat) engine" where
  "stamping_engine =
     \<lparr>A_from = stamping_from, A_save = stamping_save, A_load = stamping_load,
      A_view = (\<lambda>d. JObject (Some ObjectConstructor) (snd d))\<rparr>"

text \<open>The values and options the statements below are run on.\<close>

definition greeting :: jsvalue where
  "greeting = JObject (Some ObjectConstructor) [(''hello'', JString ''world''), (''flag'', JBoolean True)]"

definition greeting_bytes :: bytes where
  "greeting_bytes =
     [133, 111, 74, 131, 104, 101, 108, 108, 111, 0, 115, 119, 111, 114, 108, 100, 0,
      102, 108, 97, 103, 0, 116, 0]"

definition with_actor :: ConversionOptions where
  "with_actor = \<lparr>actor = Some ''0123456789abcdef'', validateJson = Some True\<rparr>"

definition dated :: jsvalue where
  "dated = JObject (Some ObjectConstructor) [(''date'', JObject (Some DateConstructor) [])]"

definition simple_fixture :: jsvalue where
  "simple_fixture = JObject (Some ObjectConstructor)
     [(''string'', JString ''hello''), (''number'', JNumber (Finite 42)),
      (''boolean'', JBoolean True), (''nullValue'', JNull)]"







section \<open>The engines save and load\<close>


lemma char_of_byte_of_char [simp]: "char_of_byte (byte_of_char c) = c"
  by (simp add: char_of_byte_def byte_of_char_def unat_of_nat)

lemma enc_scalar_nonzero: "enc_scalar v = Some b \<Longrightarrow> 0 \<notin> set b"
  by (cases v) (auto split: if_splits)

lemma dec_enc_scalar: "enc_scalar v = Some b \<Longrightarrow> dec_scalar b = Some v"
  by (cases v) (auto simp: dec_scalar_def comp_def split: if_splits)

lemma dec_enc_entry: "enc_entry p = Some e \<Longrightarrow> dec_entry e = Some p"
  by (cases p) (auto simp: enc_entry_def dec_entry_def comp_def dec_enc_scalar split: if_splits)

lemma enc_entry_nonzero: "enc_entry p = Some (k, b) \<Longrightarrow> 0 \<notin> set k \<and> 0 \<notin> set b"
  by (cases p) (auto simp: enc_entry_def enc_scalar_nonzero split: if_splits)

lemma fields_append:
  "0 \<notin> set s \<Longrightarrow> fields acc (s @ 0 # rest) = map_option ((#) (rev acc @ s)) (fields [] rest)"
  by (induction s arbitrary: acc) auto

lemma fields_saved:
  "those (map enc_entry d) = Some es \<Longrightarrow>
   fields [] (concat (map (\<lambda>p. case enc_entry p of None \<Rightarrow> [] | Some (k, b) \<Rightarrow> k @ [0] @ b @ [0]) d))
     = Some (concat (map (\<lambda>(k, b). [k, b]) es))"
proof (induction d arbitrary: es)
  case Nil
  then show ?case by simp
next
  case (Cons p d)
  then obtain k b es' where e: "enc_entry p = Some (k, b)"
    and t: "those (map enc_entry d) = Some es'" and es: "es = (k, b) # es'"
    by (auto split: option.splits)
  from enc_entry_nonzero[OF e] have z: "0 \<notin> set k" "0 \<notin> set b" by auto
  show ?case using Cons.IH[OF t] e es z
    by (simp add: fields_append)
qed

lemma pairs_concat: "pairs (concat (map (\<lambda>(k, b). [k, b]) es)) = Some es"
  by (induction es) auto

lemma those_dec_enc: "those (map enc_entry d) = Some es \<Longrightarrow> those (map dec_entry es) = Some d"
proof (induction d arbitrary: es)
  case Nil
  then show ?case by simp
next
  case (Cons p d)
  then show ?case by (auto split: option.splits simp: dec_enc_entry)
qed

lemma sample_load_save:
  assumes "those (map enc_entry d) = Some es" and "actor_ok a"
  shows "sample_load (fst (sample_save d ws)) a wl = (Inr d, Suc wl)"
  using assms
  by (simp add: sample_load_def sample_save_def magic_def fields_saved pairs_concat those_dec_enc)












lemma sample_engine_load_inverts_save: "load_inverts_save sample_engine"
  unfolding load_inverts_save_def
proof (intro allI impI)
  fix v a w d w' ws wl
  assume f: "A_from sample_engine v a w = (Inr d, w')"
  then have "actor_ok a" and "those (map enc_entry d) \<noteq> None"
    by (auto simp: sample_engine_def sample_from_def split: if_splits jsvalue.splits)
  then obtain es where "those (map enc_entry d) = Some es" by auto
  from sample_load_save[OF this \<open>actor_ok a\<close>]
  show "\<exists>d' wl'. A_load sample_engine (fst (A_save sample_engine d ws)) a wl = (Inr d', wl') \<and>
          A_view sample_engine d' = A_view sample_engine d"
    by (simp add: sample_engine_def)
qed

text \<open>Structural equality looks through the order of keys, not through the order of elements.\<close>

lemma js_equal_key_order:
  "js_equal (JObject (Some ObjectConstructor) [(''a'', JNull), (''b'', JArray [JString ''x''])])
            (JObject (Some ObjectConstructor) [(''b'', JArray [JString ''x'']), (''a'', JNull)])"
  by (simp add: insert_commute)

lemma js_equal_element_order:
  "\<not> js_equal (JArray [JBoolean True, JBoolean False]) (JArray [JBoolean False, JBoolean True])"
  by simp

lemmas sample_run =
  jsonToAutomerge_def automergeToJson_def sample_engine_def sample_from_def sample_save_def
  sample_load_def actor_ok_def enc_entry_def dec_entry_def dec_scalar_def byte_of_char_def
  char_of_byte_def magic_def no_options_def with_actor_def get_constructor_def


section \<open>The validator, case by case\<close>

text \<open>An object with an own enumerable property named \<open>constructor\<close> is never valid.\<close>

lemma own_constructor_invalid:
  assumes "''constructor'' \<in> fst ` set ps"
  shows "\<not> isValidJsonObject (JObject c ps)"
proof -
  from assms obtain y where m: "map_of ps ''constructor'' = Some y"
    by (metis domD dom_map_of_conv_image_fst)
  then have y: "y \<in> set (map snd ps)"
    by (metis image_eqI map_of_SomeD set_map snd_conv)
  show ?thesis
  proof (cases "y = JFunction ObjectConstructor \<or> y = JUndefined")
    case True
    then have "\<not> isValidJsonObject y" by auto
    with y have "\<not> list_all isValidJsonObject (map snd ps)"
      by (auto simp: list_all_iff)
    then show ?thesis by simp
  next
    case False
    with m show ?thesis by (simp add: get_constructor_def)
  qed
qed

text \<open>
  Without such a property, an object is valid exactly when it inherits \<open>Object\<close> or
  nothing and each of its property values is valid.
\<close>

lemma mapping_valid_iff:
  assumes "''constructor'' \<notin> fst ` set ps"
  shows "isValidJsonObject (JObject c ps) \<longleftrightarrow>
           (c = Some ObjectConstructor \<or> c = None) \<and> list_all isValidJsonObject (map snd ps)"
proof -
  from assms have "map_of ps ''constructor'' = None"
    by (simp add: map_of_eq_None_iff)
  then show ?thesis
    by (auto simp: get_constructor_def split: option.splits)
qed

lemma exotic_invalid: "exotic u \<Longrightarrow> \<not> isValidJsonObject u"
proof (cases u)
  case (JObject c ps)
  assume "exotic u"
  with JObject show ?thesis
    using own_constructor_invalid[of ps c] mapping_valid_iff[of ps c]
    by (cases "''constructor'' \<in> fst ` set ps") auto
qed auto

lemma valid_parts: "isValidJsonObject v \<Longrightarrow> u \<in> set (parts v) \<Longrightarrow> isValidJsonObject u"
proof (induction v arbitrary: u)
  case (JArray xs)
  then show ?case by (auto simp: list_all_iff)
next
  case (JObject c ps)
  from JObject.prems(1) have all: "list_all isValidJsonObject (map snd ps)"
    by (simp split: if_splits)
  from JObject.prems(2) consider "u = JObject c ps" | p where "p \<in> set ps" "u \<in> set (parts (snd p))"
    by auto
  then show ?case
  proof cases
    case 1
    with JObject.prems(1) show ?thesis by simp
  next
    case 2
    from 2(1) all have "isValidJsonObject (snd p)" by (auto simp: list_all_iff)
    moreover have "snd p \<in> Basic_BNFs.snds p" by (cases p) simp
    ultimately show ?thesis using JObject.IH 2 by blast
  qed
qed auto

text \<open>A date, a pattern, a callable or a symbol at any depth makes the whole value invalid.\<close>

lemma exotic_at_any_depth: "u \<in> set (parts v) \<Longrightarrow> exotic u \<Longrightarrow> \<not> isValidJsonObject v"
  using valid_parts exotic_invalid by blast

lemma date_in_mapping_invalid: "\<not> isValidJsonObject dated"
  by (simp add: dated_def get_constructor_def)

text \<open>Plain nesting is valid at every depth, and so are \<open>{}\<close> and \<open>{items: []}\<close>.\<close>

lemma nest_valid: "isValidJsonObject (nest i)"
  by (induction i) (simp_all add: get_constructor_def)

lemma empty_mapping_valid: "isValidJsonObject (JObject (Some ObjectConstructor) [])"
  by (simp add: get_constructor_def)

lemma empty_items_valid: "isValidJsonObject (JObject (Some ObjectConstructor) [(''items'', JArray [])])"
  by (simp add: get_constructor_def)

section \<open>The validator at run time and on trees\<close>














text \<open>
  On the circular object the recursion ends in \<open>RangeError\<close> whatever the stack:
  \<open>name\<close> is valid, and \<open>self\<close> asks the same question again, one frame deeper.
\<close>

lemma circular_cell:
  "circular_graph a = ObjectAt (Some ObjectConstructor)
     [(''name'', Data (Prim (PString ''test''))), (''self'', Data (At 0))]"
  by (simp add: circular_graph_def)

lemma circular_overflows: "isValidJsonObject_run n circular_graph (At 0) = (Inl RangeError, [])"
proof (induction n)
  case 0
  show ?case by simp
next
  case (Suc m)
  then show ?case
    by (cases m) (simp_all add: circular_cell not_plain_def graph_get_constructor_def)
qed

text \<open>
  A cycle alone does not make the validator throw: an invalid property met before the
  cycle ends the loop.
\<close>

lemma cycle_behind_invalid_property:
  "isValidJsonObject_run (Suc (Suc n))
     (\<lambda>a. ObjectAt (Some ObjectConstructor) [(''missing'', Data (Prim PUndefined)), (''self'', Data (At 0))])
     (At 0) = (Inr False, [])"
  by (simp add: not_plain_def graph_get_constructor_def)

text \<open>
  An accessor that throws makes the validator throw, with the getter's effects done, on a
  value that is acyclic and shallow; so does a Proxy whose trap throws.
\<close>

lemma getter_throws:
  "isValidJsonObject_run (Suc n) getter_graph (At 0) = (Inl UserError, [Effect ''log''])"
  by (simp add: getter_graph_def not_plain_def graph_get_constructor_def)

lemma proxy_throws:
  "isValidJsonObject_run (Suc n) (\<lambda>a. ProxyObjectAt (Inl UserError, [Effect ''trap'']) (Inr [], [])) (At 0)
     = (Inl UserError, [Effect ''trap''])"
  by (simp add: not_plain_def)

section \<open>The converter, read off its definitions\<close>

text \<open>The source's chain of tests, in its own order, equals the equations above.\<close>

lemma isValidJsonObject_source:
  "isValidJsonObject v =
     (if v = JNull \<or> v = JUndefined then False
      else if typeof v = ''boolean'' \<or> typeof v = ''number'' \<or> typeof v = ''string'' then True
      else if isArray v then list_all isValidJsonObject (items v)
      else if typeof v = ''object'' then
        (if get_constructor (inherited v) (properties v) \<noteq> JFunction ObjectConstructor
            \<and> get_constructor (inherited v) (properties v) \<noteq> JUndefined
         then False
         else list_all isValidJsonObject (map snd (properties v)))
      else False)"
  by (cases v) simp_all



lemma automergeToJson_rejects_what_the_engine_rejects:
  "A_load E binary (actor options) w = (Inl e, w') \<Longrightarrow>
   automergeToJson E binary options w = (Inl (Thrown e), w')"
  by (simp add: automergeToJson_def)

lemma sample_engine_rejects_random_bytes:
  "automergeToJson sample_engine [1, 2, 3, 4, 5] no_options w = (Inl (Thrown NotADocument), Suc w)"
  by (simp add: sample_run)

text \<open>The probe leaves the world as decoding left it.\<close>

lemma isValidBinary_world:
  "snd (isValidBinary E binary w) = snd (automergeToJson E binary no_options w)"
  by (auto simp: isValidBinary_def split: prod.splits sum.splits)










text \<open>
  On a plain mapping the second engine's document reads as the mapping itself, so there
  the round trip gives the value back.
\<close>

lemma those_map_Some: "those (map f xs) \<noteq> None \<Longrightarrow> x \<in> set xs \<Longrightarrow> f x \<noteq> None"
  by (induction xs) (auto split: option.splits)

lemma js_equal_value: "enc_value v = Some b \<Longrightarrow> js_equal v v"
  by (cases v) (auto simp: enc_value_def split: if_splits jsnumber.splits)

lemma js_equal_flat:
  assumes "distinct (map fst ps)" and "those (map enc_field ps) \<noteq> None"
  shows "js_equal (JObject c ps) (JObject c ps)"
proof -
  have "js_equal (snd p) (snd q)" if "p \<in> set ps" "q \<in> set ps" "fst p = fst q" for p q
  proof -
    from that assms(1) have "snd p = snd q"
      by (metis eq_key_imp_eq_value prod.collapse)
    moreover from those_map_Some[OF assms(2) that(1)] obtain b where "enc_value (snd p) = Some b"
      by (auto simp: enc_field_def split: if_splits)
    ultimately show ?thesis using js_equal_value by simp
  qed
  then show ?thesis by simp
qed

lemma plain_mapping_read_as_is:
  assumes "A_from stamping_engine (JObject (Some ObjectConstructor) ps) a w = (Inr d, w')"
  shows "js_equal (A_view stamping_engine d) (JObject (Some ObjectConstructor) ps)"
proof -
  from assms have "snd d = ps" and "distinct (map fst ps)" and "those (map enc_field ps) \<noteq> None"
    by (auto simp: stamping_engine_def stamping_from_def split: if_splits)
  then show ?thesis
    using js_equal_flat by (simp add: stamping_engine_def del: js_equal.simps)
qed

lemma greeting_encoded: "jsonToAutomerge sample_engine greeting with_actor 0 = (Inr greeting_bytes, 2)"
  by (simp add: sample_run greeting_def greeting_bytes_def)

section \<open>The round trip\<close>




section \<open>Validation\<close>

text \<open>
  C2. The validator on \<open>null\<close> and \<open>undefined\<close>. The source answers false for both
  (its first test), so \<open>null\<close> is not a valid leaf: a top-level \<open>null\<close> is turned away
  under \<open>validateJson\<close>, and so is the test fixture \<open>simple\<close>, whose \<open>nullValue\<close> is
  \<open>null\<close>.
\<close>

theorem null_rejected:
  "\<not> isValidJsonObject JNull \<and> \<not> isValidJsonObject JUndefined \<and>
   \<not> isValidJsonObject simple_fixture \<and>
   jsonToAutomerge E JNull \<lparr>actor = None, validateJson = Some True\<rparr> w =
     (Inl (Error ''Invalid JSON object: must be a plain object or array''), w)"
  by (simp add: simple_fixture_def get_constructor_def jsonToAutomerge_def)



text \<open>
  C10. Every value whose runtime type is number is valid, the non-finite ones included:
  the validator asks for \<open>typeof\<close> only.
\<close>

theorem numbers_valid: "typeof v = ''number'' \<Longrightarrow> isValidJsonObject v"
  by (cases v) simp_all

theorem numbers_valid_witness:
  "typeof (JNumber NaN) = ''number'' \<and> isValidJsonObject (JNumber NaN) \<and>
   isValidJsonObject (JNumber PosInfinity) \<and> isValidJsonObject (JNumber NegInfinity) \<and>
   isValidJsonObject (JNumber (Finite 42))"
  using numbers_valid[of "JNumber NaN"] numbers_valid[of "JNumber PosInfinity"]
    numbers_valid[of "JNumber NegInfinity"] numbers_valid[of "JNumber (Finite 42)"]
  by simp

text \<open>
  C4. The validator on mappings. An own property named \<open>constructor\<close> is what
  \<open>value.constructor\<close> reads, so the source's test for a plain object fails on the plain
  mapping \<open>{"constructor": "x"}\<close>: every value in it is valid, and the validator
  answers false.
\<close>

theorem constructor_key_rejected:
  "list_all isValidJsonObject (map snd [(''constructor'', JString ''x'')]) \<and>
   \<not> isValidJsonObject (JObject (Some ObjectConstructor) [(''constructor'', JString ''x'')])"
  by (simp add: get_constructor_def)




section \<open>Binary input\<close>

text \<open>
  C5. Decoding the empty byte sequence. \<open>automergeToJson\<close> has no test of its own on
  the bytes: whenever the engine makes a document from zero bytes, decoding returns that
  document and nothing is thrown.
\<close>

theorem automergeToJson_empty_input:
  "A_load E [] (actor options) w = (Inr doc, w') \<Longrightarrow> automergeToJson E [] options w = (Inr doc, w')"
  by (simp add: automergeToJson_def)

theorem automergeToJson_empty_input_witness:
  "A_load sample_engine [] (actor no_options) 0 = (Inr [], 1) \<and>
   automergeToJson sample_engine [] no_options 0 = (Inr [], 1)"
proof -
  have h: "A_load sample_engine [] (actor no_options) 0 = (Inr [], 1)"
    by (simp add: sample_engine_def sample_load_def actor_ok_def no_options_def)
  show ?thesis using h automergeToJson_empty_input[OF h] by simp
qed




section \<open>Determinism and the repo-compatible encoding\<close>




text \<open>
  C9. \<open>jsonToRepoCompatible\<close> returns what \<open>jsonToAutomerge\<close> returns, for every input
  and every options value: the same result, bytes or failure, and the same world.
\<close>

theorem jsonToRepoCompatible_eq:
  "jsonToRepoCompatible E json options w = jsonToAutomerge E json options w"
  by (simp add: jsonToRepoCompatible_def)

theorem jsonToRepoCompatible_eq_witness:
  "jsonToRepoCompatible sample_engine greeting with_actor 0 = (Inr greeting_bytes, 2)"
  using jsonToRepoCompatible_eq[of sample_engine greeting with_actor 0]
  by (simp add: sample_run greeting_def greeting_bytes_def)

end
